theory Spec2Isabelle
  imports Complex_Main "HOL-Library.AList"
begin

section \<open>Word embeddings and similarity matrices (similarities.ipynb)\<close>

text \<open>
  The notebook loads word-vector tables from text files into a dictionary from label to
  vector (class \<open>WordEmbeddings\<close>), answers lookups and cosine similarities, and fills
  one similarity matrix per word list.

  Conventions of the model.
  \<^item> A Python \<open>str\<close> is a \<open>string\<close> whose characters are the code points below 256
    (ASCII and Latin-1, which holds the German capitals with umlaut).
  \<^item> The numbers of a vector are values of a type \<open>'a\<close>, and the arithmetic that numpy
    and scikit-learn do on them is a parameter of the model (an \<open>arith\<close>): nothing is
    assumed of rounding, overflow, infinities or NaN. The conversion of a text token to
    a number is a parameter too (field \<open>float32\<close> of the world).
  \<^item> A raised exception is the \<open>Inl\<close> of a sum; text printed by \<open>print\<close> and the files
    opened are returned as lists beside the result. The progress bar of \<open>tqdm\<close> is left
    out. Of the exceptions of the libraries the class is kept and the text is cut before
    the values it reports.
\<close>

subsection \<open>Strings\<close>

text \<open>
  The capital letters below 256 and, at the same positions, their small letters: A to Z,
  and the capitals of Latin-1 (0xC0 to 0xDE without the multiplication sign 0xD7).
\<close>

definition uppercase :: string where
  "uppercase = ''ABCDEFGHIJKLMNOPQRSTUVWXYZ'' @
       [CHR 0xC0, CHR 0xC1, CHR 0xC2, CHR 0xC3, CHR 0xC4, CHR 0xC5, CHR 0xC6, CHR 0xC7,
        CHR 0xC8, CHR 0xC9, CHR 0xCA, CHR 0xCB, CHR 0xCC, CHR 0xCD, CHR 0xCE, CHR 0xCF,
        CHR 0xD0, CHR 0xD1, CHR 0xD2, CHR 0xD3, CHR 0xD4, CHR 0xD5, CHR 0xD6,
        CHR 0xD8, CHR 0xD9, CHR 0xDA, CHR 0xDB, CHR 0xDC, CHR 0xDD, CHR 0xDE]"

definition lowercase :: string where
  "lowercase = ''abcdefghijklmnopqrstuvwxyz'' @
       [CHR 0xE0, CHR 0xE1, CHR 0xE2, CHR 0xE3, CHR 0xE4, CHR 0xE5, CHR 0xE6, CHR 0xE7,
        CHR 0xE8, CHR 0xE9, CHR 0xEA, CHR 0xEB, CHR 0xEC, CHR 0xED, CHR 0xEE, CHR 0xEF,
        CHR 0xF0, CHR 0xF1, CHR 0xF2, CHR 0xF3, CHR 0xF4, CHR 0xF5, CHR 0xF6,
        CHR 0xF8, CHR 0xF9, CHR 0xFA, CHR 0xFB, CHR 0xFC, CHR 0xFD, CHR 0xFE]"

definition lower_char :: "char \<Rightarrow> char" where
  "lower_char c = (case map_of (zip uppercase lowercase) c of None \<Rightarrow> c | Some l \<Rightarrow> l)"

text \<open>\<open>key.lower()\<close>\<close>

definition lower :: "string \<Rightarrow> string" where
  "lower s = map lower_char s"

text \<open>
  \<open>embedding_type.casefold()\<close>: as \<open>lower\<close>, but the sharp s (0xDF) becomes \<open>ss\<close>. The
  micro sign (0xB5) folds to the Greek letter mu, which is no code point below 256; it is
  left as it is, and a string that holds it has no ASCII fold either way.
\<close>

definition casefold_char :: "char \<Rightarrow> string" where
  "casefold_char c = (if c = CHR 0xDF then ''ss'' else [lower_char c])"

definition casefold :: "string \<Rightarrow> string" where
  "casefold s = concat (map casefold_char s)"

text \<open>\<open>word.startswith(prefix)\<close>\<close>

definition startswith :: "string \<Rightarrow> string \<Rightarrow> bool" where
  "startswith s p = (take (length p) s = p)"

text \<open>
  \<open>s.replace(old, '')\<close>: every occurrence of \<open>old\<close> is removed, scanning from the left
  and continuing after each occurrence found. With an empty \<open>old\<close> Python inserts the
  (empty) replacement between the characters, which leaves \<open>s\<close> as it is.
\<close>

function replace_empty :: "string \<Rightarrow> string \<Rightarrow> string" where
  "replace_empty old s =
     (if old = [] \<or> s = [] then s
      else if startswith s old then replace_empty old (drop (length old) s)
      else hd s # replace_empty old (tl s))"
  by pat_completeness auto
termination
  by (relation "measure (\<lambda>(old, s). length s)") auto

declare replace_empty.simps [simp del]

text \<open>\<open>word[2:-1]\<close>: without the first two characters and the last one.\<close>

definition slice_2_m1 :: "string \<Rightarrow> string" where
  "slice_2_m1 word = drop 2 (butlast word)"

text \<open>The characters at which \<open>str.split()\<close> cuts (those of \<open>str.isspace\<close> below 256).\<close>

definition isspace :: "char \<Rightarrow> bool" where
  "isspace c =
     (c \<in> set [CHR 0x09, CHR 0x0A, CHR 0x0B, CHR 0x0C, CHR 0x0D, CHR 0x1C, CHR 0x1D,
                CHR 0x1E, CHR 0x1F, CHR 0x20, CHR 0x85, CHR 0xA0])"

text \<open>
  \<open>line.split()\<close>: the maximal runs of characters that are not whitespace, in order.
  The first argument is the run being read.
\<close>

fun split_from :: "string \<Rightarrow> string \<Rightarrow> string list" where
  "split_from tok [] = (if tok = [] then [] else [tok])"
| "split_from tok (c # cs) =
     (if isspace c then (if tok = [] then split_from [] cs else tok # split_from [] cs)
      else split_from (tok @ [c]) cs)"

definition str_split :: "string \<Rightarrow> string list" where
  "str_split line = split_from [] line"

text \<open>\<open>os.path.join(base_dir, name)\<close> for a relative \<open>name\<close>.\<close>

definition join :: "string \<Rightarrow> string \<Rightarrow> string" where
  "join base_dir name =
     (if base_dir = [] \<or> last base_dir = CHR ''/'' then base_dir @ name
      else base_dir @ ''/'' @ name)"

subsection \<open>Reading the vector files\<close>

type_synonym 'a vec = "'a list"

datatype error = OSError string | IndexError | ValueError string

text \<open>
  What the program reads from its surroundings: the text files (a path has the lines of
  its file, already decoded, or none when it cannot be opened) and numpy's conversion of a
  token to a \<open>float32\<close>, which also accepts the spellings of infinity and NaN.
\<close>

record 'a world =
  files :: "string \<rightharpoonup> string list"
  float32 :: "string \<Rightarrow> 'a option"

text \<open>\<open>np.asarray(values[1:], dtype='float32')\<close>: fails at the first token that is no number.\<close>

fun asarray :: "(string \<Rightarrow> 'a option) \<Rightarrow> string list \<Rightarrow> error + 'a vec" where
  "asarray f [] = Inr []"
| "asarray f (t # ts) =
     (case f t of
        None \<Rightarrow> Inl (ValueError (''could not convert string to float: '' @ t))
      | Some x \<Rightarrow> (case asarray f ts of Inl e \<Rightarrow> Inl e | Inr xs \<Rightarrow> Inr (x # xs)))"

text \<open>The body of the loop of \<open>embeddings_reader\<close>: one line gives one pair.\<close>

definition read_line :: "(string \<Rightarrow> 'a option) \<Rightarrow> string \<Rightarrow> error + (string \<times> 'a vec)" where
  "read_line f line =
     (case str_split line of
        [] \<Rightarrow> Inl IndexError
      | word # rest \<Rightarrow>
          (case asarray f rest of Inl e \<Rightarrow> Inl e | Inr coefs \<Rightarrow> Inr (word, coefs)))"

fun read_lines ::
  "(string \<Rightarrow> 'a option) \<Rightarrow> string list \<Rightarrow> error + (string \<times> 'a vec) list" where
  "read_lines f [] = Inr []"
| "read_lines f (line # rest) =
     (case read_line f line of
        Inl e \<Rightarrow> Inl e
      | Inr row \<Rightarrow> (case read_lines f rest of Inl e \<Rightarrow> Inl e | Inr rows \<Rightarrow> Inr (row # rows)))"

text \<open>
  \<open>embeddings_reader(file_name)\<close>: the pairs of the file in order. The generator is
  consumed to its end by every caller and the callers' loop bodies cannot fail, so the
  sequence is given as a whole: the rows, or the first exception.
\<close>

definition embeddings_reader :: "'a world \<Rightarrow> string \<Rightarrow> error + (string \<times> 'a vec) list" where
  "embeddings_reader w file_name =
     (case files w file_name of
        None \<Rightarrow> Inl (OSError file_name)
      | Some lines \<Rightarrow> read_lines (float32 w) lines)"

text \<open>\<open>np.vstack(word_vectors)\<close>: the rows as one matrix; they must exist and agree in length.\<close>

definition vstack :: "'a vec list \<Rightarrow> error + 'a vec list" where
  "vstack vs =
     (if vs = [] then Inl (ValueError ''need at least one array to concatenate'')
      else if \<forall>v \<in> set vs. length v = length (hd vs) then Inr vs
      else Inl (ValueError ''all the input array dimensions must match exactly''))"

definition prefix :: string where
  "prefix = ''/c/de/''"

text \<open>
  \<open>read_embeddings(embedding_type, base_dir)\<close>. The first component lists the files
  opened, the second is the exception raised or the pair \<open>(word_vectors, vector_labels)\<close>.
\<close>

definition read_embeddings ::
  "'a world \<Rightarrow> string \<Rightarrow> string \<Rightarrow> string list \<times> (error + ('a vec list \<times> string list))" where
  "read_embeddings w embedding_type base_dir =
     (if casefold embedding_type = ''word2vec'' then
        (let w2w_path = join base_dir ''ger_word2vec_vectors.txt'' in
         ([w2w_path],
          case embeddings_reader w w2w_path of
            Inl e \<Rightarrow> Inl e
          | Inr rows \<Rightarrow> Inr (map snd rows, map (\<lambda>(word, coefs). slice_2_m1 word) rows)))
      else if casefold embedding_type = ''glove'' then
        (let glove_path = join base_dir ''ger_glove_vectors.txt'' in
         ([glove_path],
          case embeddings_reader w glove_path of
            Inl e \<Rightarrow> Inl e
          | Inr rows \<Rightarrow>
              (case vstack (map snd rows) of
                 Inl e \<Rightarrow> Inl e
               | Inr word_vectors \<Rightarrow> Inr (word_vectors, map fst rows))))
      else if casefold embedding_type \<in> set [''conceptnetnb'', ''conceptnet''] then
        (let cnnb_path = join base_dir ''conceptnet_vectors.txt'' in
         ([cnnb_path],
          case embeddings_reader w cnnb_path of
            Inl e \<Rightarrow> Inl e
          | Inr rows \<Rightarrow>
              (let kept = filter (\<lambda>(word, coefs). startswith word prefix) rows in
               Inr (map snd kept, map (\<lambda>(word, coefs). replace_empty prefix word) kept))))
      else
        ([], Inl (ValueError (''invalid embedding type '' @ embedding_type
                 @ '': Choose either word2vec, GloVe or ConceptNetNB!''))))"

subsection \<open>The store\<close>

text \<open>
  A Python \<open>dict\<close> is an association list with one pair for each key, in the order in which
  the keys were first inserted; storing under a key that is present replaces its value.
\<close>

type_synonym 'a embedding_map = "(string \<times> 'a vec) list"

text \<open>\<open>dict(zip(vector_labels, word_vectors))\<close>\<close>

definition make_embedding_map :: "'a vec list \<Rightarrow> string list \<Rightarrow> 'a embedding_map" where
  "make_embedding_map word_vectors vector_labels =
     fold (\<lambda>(label, v) d. AList.update label v d) (zip vector_labels word_vectors) []"

record 'a WordEmbeddings =
  embedding_type :: string
  word_vectors :: "'a vec list"
  vector_labels :: "string list"
  dict :: "'a embedding_map"

text \<open>\<open>WordEmbeddings(embedding_type, base_dir)\<close>\<close>

definition init ::
  "'a world \<Rightarrow> string \<Rightarrow> string \<Rightarrow> string list \<times> (error + 'a WordEmbeddings)" where
  "init w etype base_dir =
     (case read_embeddings w etype base_dir of
        (opened, Inl e) \<Rightarrow> (opened, Inl e)
      | (opened, Inr (wv, vl)) \<Rightarrow>
          (opened, Inr \<lparr>embedding_type = etype, word_vectors = wv, vector_labels = vl,
                        dict = make_embedding_map wv vl\<rparr>))"

text \<open>\<open>self[key]\<close>; Python's \<open>None\<close> is \<open>None\<close>.\<close>

definition getitem :: "'a WordEmbeddings \<Rightarrow> string \<Rightarrow> 'a vec option" where
  "getitem self key =
     (let key = (if lower (embedding_type self)
                      \<in> set [''word2vec'', ''glove'', ''conceptnet'', ''conceptnetnb'']
                 then lower key else key)
      in map_of (dict self) key)"

text \<open>
  The attributes of an instance, \<open>self.__dict__\<close>, with their names in the order of the
  assignments of \<open>__init__\<close>.
\<close>

datatype 'a attribute =
  Str string | Vectors "'a vec list" | Labels "string list" | Dict "'a embedding_map"

definition instance_dict :: "'a WordEmbeddings \<Rightarrow> (string \<times> 'a attribute) list" where
  "instance_dict self =
     [(''embedding_type'', Str (embedding_type self)),
      (''word_vectors'', Vectors (word_vectors self)),
      (''vector_labels'', Labels (vector_labels self)),
      (''dict'', Dict (dict self))]"

text \<open>\<open>len(store)\<close>\<close>

definition len :: "'a WordEmbeddings \<Rightarrow> nat" where
  "len self = length (instance_dict self)"

subsection \<open>Cosine similarity\<close>

text \<open>
  The arithmetic of the libraries on the numbers of a vector, as scikit-learn's
  \<open>cosine_similarity\<close> uses it:
  \<^item> \<open>isfinite\<close>: the number is neither an infinity nor NaN;
  \<^item> \<open>fnorm\<close>: the Euclidean norm of a row (\<open>row_norms\<close>);
  \<^item> \<open>zero_scale\<close>: the test for a norm to be replaced by one (the norm is zero; in
    later versions of the library, the norm is below ten machine epsilons);
  \<^item> \<open>fone\<close>, \<open>fdiv\<close>, \<open>fmul\<close>: the number one, division and multiplication;
  \<^item> \<open>fsum\<close>: the sum of a sequence of numbers, in the order the library adds them.
\<close>

record 'a arith =
  isfinite :: "'a \<Rightarrow> bool"
  fnorm :: "'a vec \<Rightarrow> 'a"
  zero_scale :: "'a \<Rightarrow> bool"
  fone :: 'a
  fdiv :: "'a \<Rightarrow> 'a \<Rightarrow> 'a"
  fmul :: "'a \<Rightarrow> 'a \<Rightarrow> 'a"
  fsum :: "'a list \<Rightarrow> 'a"

text \<open>The product of two rows: the sum of the products of their entries.\<close>

definition dot :: "'a arith \<Rightarrow> 'a vec \<Rightarrow> 'a vec \<Rightarrow> 'a" where
  "dot A u v = fsum A (map (\<lambda>(x, y). fmul A x y) (zip u v))"

text \<open>
  The normalisation inside \<open>cosine_similarity\<close>: a row is divided by its norm, and a norm
  that passes the test \<open>zero_scale\<close> is replaced by one.
\<close>

definition normalize :: "'a arith \<Rightarrow> 'a vec \<Rightarrow> 'a vec" where
  "normalize A v =
     (let n = fnorm A v in map (\<lambda>x. fdiv A x (if zero_scale A n then fone A else n)) v)"

text \<open>
  \<open>cosine_similarity(v1, v2).item()\<close> for the one-row matrices \<open>v.reshape(1, -1)\<close>. The
  library checks the first matrix, then the second (each must have finite entries, and at
  least one of them), then that the rows have one length; it raises \<open>ValueError\<close> where a
  check fails, and otherwise returns the product of the normalised rows.
\<close>

definition cosine_similarity :: "'a arith \<Rightarrow> 'a vec \<Rightarrow> 'a vec \<Rightarrow> error + 'a" where
  "cosine_similarity A v1 v2 =
     (if \<not> list_all (isfinite A) v1 then Inl (ValueError ''Input contains NaN or infinity'')
      else if v1 = [] then Inl (ValueError ''Found array with 0 feature(s)'')
      else if \<not> list_all (isfinite A) v2
        then Inl (ValueError ''Input contains NaN or infinity'')
      else if v2 = [] then Inl (ValueError ''Found array with 0 feature(s)'')
      else if length v1 \<noteq> length v2
        then Inl (ValueError ''Incompatible dimension for X and Y matrices'')
      else Inr (dot A (normalize A v1) (normalize A v2)))"

text \<open>
  \<open>self.get_cosine_similarity(w1, w2)\<close>: the lines printed, and the exception or the value
  returned (\<open>None\<close> or a number).
\<close>

definition get_cosine_similarity ::
  "'a arith \<Rightarrow> 'a WordEmbeddings \<Rightarrow> string \<Rightarrow> string \<Rightarrow> string list \<times> (error + 'a option)"
  where
  "get_cosine_similarity A self w1 w2 =
     (case getitem self w1 of
        None \<Rightarrow> ([''no vectors for word '' @ w1], Inr None)
      | Some v1 \<Rightarrow>
          (case getitem self w2 of
             None \<Rightarrow> ([''no vectors for word '' @ w2], Inr None)
           | Some v2 \<Rightarrow>
               ([], case cosine_similarity A v1 v2 of
                      Inl e \<Rightarrow> Inl e
                    | Inr x \<Rightarrow> Inr (Some x))))"

subsection \<open>The similarity matrix\<close>

text \<open>
  A cell of the data frame: \<open>NaN\<close> as created, or the value assigned to it. The frame
  \<open>pd.DataFrame(columns=list_words, index=list_words)\<close> is addressed by labels,
  \<open>df[column][row]\<close>: columns of one label have the same cells, and so have rows of one
  label.
\<close>

datatype 'a cell = NaN | Assigned "'a option"

record 'a frame =
  columns :: "string list"
  index :: "string list"
  cells :: "string \<Rightarrow> string \<Rightarrow> 'a cell"

text \<open>
  The chained assignment \<open>df[w1][w2] = x\<close>, for labels \<open>w1\<close> and \<open>w2\<close> of the frame.
  \<open>df[w1]\<close> is the column itself when the label \<open>w1\<close> occurs once among the columns and
  pandas works without copy-on-write: the assignment then writes the rows labelled \<open>w2\<close>
  of that column. When the label occurs more than once \<open>df[w1]\<close> is a new frame, and under
  copy-on-write it is a new column: the assignment then changes nothing in \<open>df\<close>.
\<close>

definition setcell ::
  "bool \<Rightarrow> 'a frame \<Rightarrow> string \<Rightarrow> string \<Rightarrow> 'a option \<Rightarrow> 'a frame" where
  "setcell copy_on_write df w1 w2 x =
     (if \<not> copy_on_write \<and> count_list (columns df) w1 = 1
      then df\<lparr>cells := (cells df)(w1 := (cells df w1)(w2 := Assigned x))\<rparr>
      else df)"

text \<open>The loop over \<open>word_combinations\<close>; an exception ends it.\<close>

fun fill ::
  "bool \<Rightarrow> 'a arith \<Rightarrow> 'a WordEmbeddings \<Rightarrow> (string \<times> string) list \<Rightarrow> 'a frame
     \<Rightarrow> string list \<times> (error + 'a frame)" where
  "fill cow A embeddings [] df = ([], Inr df)"
| "fill cow A embeddings ((w1, w2) # rest) df =
     (case get_cosine_similarity A embeddings w1 w2 of
        (out, Inl e) \<Rightarrow> (out, Inl e)
      | (out, Inr x) \<Rightarrow>
          (case fill cow A embeddings rest (setcell cow df w1 w2 x) of
             (out', res) \<Rightarrow> (out @ out', res)))"



subsection \<open>Example data\<close>

text \<open>A ConceptNet file of three rows, and a parser that knows the tokens 0 and 1.\<close>

definition demo_world :: "real world" where
  "demo_world =
     \<lparr>files = [''./word_vectors/conceptnet_vectors.txt'' \<mapsto>
                 [''/c/de/Baum 1 0'', ''/c/en/tree 0 1'', ''/c/de/a/c/de/b 1 1'']],
      float32 = (\<lambda>t. if t = ''0'' then Some 0 else if t = ''1'' then Some 1 else None)\<rparr>"


text \<open>
  A store of five words with vectors of two entries. The key of the last but one is
  \<open>oel\<close> written with o umlaut (0xF6); the last key has a capital.
\<close>

definition demo_store :: "real WordEmbeddings" where
  "demo_store =
     \<lparr>embedding_type = ''GloVe'',
      word_vectors = [[3, 4], [4, 3], [0, 0], [0, 1], [1, 0]],
      vector_labels = [''haus'', ''hut'', ''null'', [CHR 0xF6, CHR ''l''], ''Baum''],
      dict = [(''haus'', [3, 4]), (''hut'', [4, 3]), (''null'', [0, 0]),
              ([CHR 0xF6, CHR ''l''], [0, 1]), (''Baum'', [1, 0])]\<rparr>"


text \<open>Exact arithmetic on the reals, as one arithmetic to compute the examples with.\<close>

definition exact :: "real arith" where
  "exact =
     \<lparr>isfinite = (\<lambda>x. True),
      fnorm = (\<lambda>v. sqrt (sum_list (map (\<lambda>x. x * x) v))),
      zero_scale = (\<lambda>n. n = 0),
      fone = 1,
      fdiv = (\<lambda>x y. x / y),
      fmul = (\<lambda>x y. x * y),
      fsum = sum_list\<rparr>"

section \<open>Lemmas\<close>

subsection \<open>Case\<close>

lemmas lower_eval = lower_def lower_char_def uppercase_def lowercase_def

lemmas casefold_eval = casefold_def casefold_char_def lower_char_def uppercase_def lowercase_def

text \<open>A capital with umlaut is lowered: \<open>Oel\<close> with O umlaut gives \<open>oel\<close> with o umlaut.\<close>

lemma lower_umlaut: "lower [CHR 0xD6, CHR ''l''] = [CHR 0xF6, CHR ''l'']"
  by (simp add: lower_eval)


subsection \<open>The dictionary built by \<open>make_embedding_map\<close>\<close>

lemma map_of_fold_update:
  "map_of (fold (\<lambda>(k, v) d. AList.update k v d) ps d) = map_of (rev ps @ d)"
proof (induction ps arbitrary: d)
  case Nil
  show ?case by simp
next
  case (Cons p ps)
  obtain k v where p: "p = (k, v)" by (cases p)
  have "map_of (rev ps @ AList.update k v d) = map_of (rev ps @ (k, v) # d)"
    by (simp add: map_of_append update_conv')
  with Cons p show ?case by simp
qed

lemma distinct_fold_update:
  "distinct (map fst d) \<Longrightarrow> distinct (map fst (fold (\<lambda>(k, v) d. AList.update k v d) ps d))"
  by (induction ps arbitrary: d) (auto simp: distinct_update)

lemma map_of_make_embedding_map:
  "map_of (make_embedding_map vs ls) = map_of (rev (zip ls vs))"
  by (simp add: make_embedding_map_def map_of_fold_update)

lemma distinct_make_embedding_map: "distinct (map fst (make_embedding_map vs ls))"
  by (simp add: make_embedding_map_def distinct_fold_update)


text \<open>Of the pairs of a label, the one zipped last is the one found.\<close>

lemma map_of_rev_zip_last:
  assumes "length ls = length vs"
  shows "i < length ls \<Longrightarrow> (\<forall>j. i < j \<and> j < length ls \<longrightarrow> ls ! j \<noteq> ls ! i)
    \<Longrightarrow> map_of (rev (zip ls vs)) (ls ! i) = Some (vs ! i)"
  using assms
proof (induction ls vs arbitrary: i rule: list_induct2)
  case Nil
  then show ?case by simp
next
  case (Cons l ls v vs)
  show ?case
  proof (cases i)
    case 0
    have "l \<notin> set ls"
    proof
      assume "l \<in> set ls"
      then obtain j where "j < length ls" "ls ! j = l" by (auto simp: in_set_conv_nth)
      with Cons.prems(2) 0 show False by (auto dest: spec [of _ "Suc j"])
    qed
    then have "map_of (rev (zip ls vs)) l = None"
      by (auto simp: map_of_eq_None_iff dest: set_zip_leftD)
    with 0 show ?thesis by (simp add: map_of_append map_add_def)
  next
    case (Suc i')
    have "\<forall>j. i' < j \<and> j < length ls \<longrightarrow> ls ! j \<noteq> ls ! i'"
    proof (intro allI impI)
      fix j assume "i' < j \<and> j < length ls"
      with Cons.prems(2) Suc show "ls ! j \<noteq> ls ! i'" by (auto dest: spec [of _ "Suc j"])
    qed
    with Cons.IH [of i'] Cons.prems(1) Suc
    have "map_of (rev (zip ls vs)) (ls ! i') = Some (vs ! i')" by simp
    with Suc show ?thesis by (simp add: map_of_append map_add_def)
  qed
qed

subsection \<open>Loading\<close>

text \<open>
  Removing the occurrences of \<open>old\<close> leaves a string without occurrences as it is, and
  strips a leading \<open>old\<close> from a string in which \<open>old\<close> does not occur again.
\<close>

lemma replace_empty_no_occurrence:
  "old \<noteq> [] \<Longrightarrow> (\<forall>k. \<not> startswith (drop k s) old) \<Longrightarrow> replace_empty old s = s"
proof (induction old s rule: replace_empty.induct)
  case (1 old s)
  show ?case
  proof (cases "s = []")
    case True
    then show ?thesis by (simp add: replace_empty.simps)
  next
    case False
    from "1.prems"(2) have no: "\<not> startswith s old" by (auto dest: spec [of _ 0])
    have "\<forall>k. \<not> startswith (drop k (tl s)) old"
    proof
      fix k
      from "1.prems"(2) have "\<not> startswith (drop (Suc k) s) old" by blast
      then show "\<not> startswith (drop k (tl s)) old" by (simp add: drop_Suc)
    qed
    with "1.IH"(2) "1.prems"(1) False no have "replace_empty old (tl s) = tl s" by simp
    with False no "1.prems"(1) show ?thesis
      by (subst replace_empty.simps) simp
  qed
qed

lemma replace_empty_strip_prefix:
  assumes "old \<noteq> []" and "startswith s old"
    and "\<forall>k. \<not> startswith (drop k (drop (length old) s)) old"
  shows "replace_empty old s = drop (length old) s"
proof -
  from assms(1,2) have "s \<noteq> []" by (auto simp: startswith_def)
  with assms(1,2) have "replace_empty old s = replace_empty old (drop (length old) s)"
    by (subst replace_empty.simps) simp
  with replace_empty_no_occurrence [OF assms(1,3)] show ?thesis by simp
qed

text \<open>The ConceptNet branch: the rows kept and the labels stored.\<close>

lemma read_embeddings_conceptnet:
  assumes "casefold etype \<in> set [''conceptnetnb'', ''conceptnet'']"
    and "embeddings_reader w (join base_dir ''conceptnet_vectors.txt'') = Inr rows"
  shows "read_embeddings w etype base_dir =
           ([join base_dir ''conceptnet_vectors.txt''],
            Inr (map snd (filter (\<lambda>(word, coefs). startswith word prefix) rows),
                 map (\<lambda>(word, coefs). replace_empty prefix word)
                   (filter (\<lambda>(word, coefs). startswith word prefix) rows)))"
  using assms by (auto simp: read_embeddings_def Let_def)




text \<open>The stores that the example files give.\<close>

lemma demo_init:
  "init demo_world ''ConceptNet'' ''./word_vectors'' =
     ([''./word_vectors/conceptnet_vectors.txt''],
      Inr \<lparr>embedding_type = ''ConceptNet'', word_vectors = [[1, 0], [1, 1]],
           vector_labels = [''Baum'', ''ab''],
           dict = [(''Baum'', [1, 0]), (''ab'', [1, 1])]\<rparr>)"
  by code_simp


subsection \<open>Cosine similarity\<close>

lemma dot_commute:
  assumes "\<forall>a b. fmul A a b = fmul A b a"
  shows "dot A u v = dot A v u"
proof -
  have "map (\<lambda>(x, y). fmul A x y) (zip u v) = map (\<lambda>(x, y). fmul A x y) (zip v u)"
  proof (induction u arbitrary: v)
    case Nil
    show ?case by simp
  next
    case (Cons a u)
    then show ?case using assms by (cases v) simp_all
  qed
  then show ?thesis by (simp add: dot_def)
qed

text \<open>When \<open>cosine_similarity\<close> returns, and what.\<close>

lemma cosine_similarity_Inr_iff:
  "cosine_similarity A v1 v2 = Inr y \<longleftrightarrow>
     list_all (isfinite A) v1 \<and> v1 \<noteq> [] \<and> list_all (isfinite A) v2 \<and> v2 \<noteq> []
     \<and> length v1 = length v2 \<and> y = dot A (normalize A v1) (normalize A v2)"
  by (auto simp: cosine_similarity_def)

lemma cosine_similarity_commute:
  assumes "\<forall>a b. fmul A a b = fmul A b a"
  shows "cosine_similarity A v1 v2 = Inr y \<longleftrightarrow> cosine_similarity A v2 v1 = Inr y"
  using dot_commute [OF assms, of "normalize A v1" "normalize A v2"]
  by (auto simp: cosine_similarity_Inr_iff)

lemma cosine_similarity_returns:
  assumes "list_all (isfinite A) v1" and "list_all (isfinite A) v2"
    and "v1 \<noteq> []" and "length v1 = length v2"
  shows "\<exists>x. cosine_similarity A v1 v2 = Inr x"
  using assms by (auto simp: cosine_similarity_Inr_iff)

text \<open>\<open>None\<close> is returned for a word without a vector, and only then.\<close>

lemma get_cosine_similarity_None_iff:
  "snd (get_cosine_similarity A self w1 w2) = Inr None \<longleftrightarrow>
     getitem self w1 = None \<or> getitem self w2 = None"
  by (auto simp: get_cosine_similarity_def split: option.splits sum.splits)

lemma get_cosine_similarity_Some_iff:
  "snd (get_cosine_similarity A self w1 w2) = Inr (Some x) \<longleftrightarrow>
     (\<exists>v1 v2. getitem self w1 = Some v1 \<and> getitem self w2 = Some v2
        \<and> cosine_similarity A v1 v2 = Inr x)"
  by (auto simp: get_cosine_similarity_def split: option.splits sum.splits)

lemma snd_get_cosine_similarity_commute:
  assumes "\<forall>a b. fmul A a b = fmul A b a"
  shows "snd (get_cosine_similarity A self w1 w2) = Inr r \<longleftrightarrow>
         snd (get_cosine_similarity A self w2 w1) = Inr r"
proof (cases r)
  case None
  then show ?thesis by (auto simp: get_cosine_similarity_None_iff)
next
  case (Some x)
  then show ?thesis
    using cosine_similarity_commute [OF assms]
    by (auto simp: get_cosine_similarity_Some_iff)
qed



subsection \<open>Filling the frame\<close>



text \<open>Under copy-on-write the loop leaves the frame as it was created.\<close>

lemma fill_copy_on_write:
  "fill True A st ps df = (out, Inr df') \<Longrightarrow> df' = df"
proof (induction ps arbitrary: df out)
  case Nil
  then show ?case by simp
next
  case (Cons p ps)
  obtain w1 w2 where p: "p = (w1, w2)" by (cases p)
  from Cons.prems p Cons.IH [of df] show ?case
    by (auto simp: setcell_def split: prod.splits sum.splits)
qed

section \<open>Properties of the program\<close>

subsection \<open>Loading\<close>

text \<open>
  C1. The ConceptNet branch of \<open>read_embeddings\<close> keeps a row exactly when its raw label
  starts with \<open>/c/de/\<close>, and the label it stores is meant to be the raw label without that
  leading prefix. The code removes the prefix with \<open>word.replace(prefix, '')\<close>, which
  removes every occurrence. On the example file the row \<open>/c/de/Baum\<close> gives \<open>Baum\<close> and
  the row \<open>/c/en/tree\<close> is dropped, but the row \<open>/c/de/a/c/de/b\<close>, whose label without
  the leading prefix is \<open>a/c/de/b\<close>, is stored as \<open>ab\<close>.
\<close>

theorem read_embeddings_conceptnet_inner_prefix:
  "read_embeddings demo_world ''ConceptNet'' ''./word_vectors'' =
     ([''./word_vectors/conceptnet_vectors.txt''],
      Inr ([[1, 0], [1, 1]], [''Baum'', ''ab'']))
   \<and> startswith ''/c/de/a/c/de/b'' prefix
   \<and> drop (length prefix) ''/c/de/a/c/de/b'' = ''a/c/de/b''"
  by code_simp

text \<open>
  C5. A source identifier whose case-folded form is none of \<open>word2vec\<close>, \<open>glove\<close>,
  \<open>conceptnet\<close>, \<open>conceptnetnb\<close> makes \<open>read_embeddings\<close>, and with it the construction
  of a store, raise a \<open>ValueError\<close> whose text names the supported sources; no file has
  been opened by then.
\<close>

theorem read_embeddings_unsupported:
  assumes "casefold etype \<notin> set [''word2vec'', ''glove'', ''conceptnet'', ''conceptnetnb'']"
  shows "read_embeddings w etype base_dir =
           ([], Inl (ValueError (''invalid embedding type '' @ etype
                  @ '': Choose either word2vec, GloVe or ConceptNetNB!'')))
       \<and> init w etype base_dir =
           ([], Inl (ValueError (''invalid embedding type '' @ etype
                  @ '': Choose either word2vec, GloVe or ConceptNetNB!'')))"
  using assms by (simp add: read_embeddings_def init_def)

theorem read_embeddings_unsupported_witness:
  "casefold ''fastText'' \<notin> set [''word2vec'', ''glove'', ''conceptnet'', ''conceptnetnb'']
   \<and> read_embeddings demo_world ''fastText'' ''./word_vectors'' =
       ([], Inl (ValueError
          ''invalid embedding type fastText: Choose either word2vec, GloVe or ConceptNetNB!''))"
  using read_embeddings_unsupported [of "''fastText''" demo_world "''./word_vectors''"]
  by (simp add: casefold_eval)

subsection \<open>The store\<close>

text \<open>
  C6. In the dictionary built from the vectors and the labels of a loader (two lists of one
  length), a label is mapped to the vector of its last occurrence in the label list, and
  no key occurs twice.
\<close>

theorem make_embedding_map_last_wins:
  assumes "length vs = length ls"
    and "i < length ls"
    and "\<forall>j. i < j \<and> j < length ls \<longrightarrow> ls ! j \<noteq> ls ! i"
  shows "map_of (make_embedding_map vs ls) (ls ! i) = Some (vs ! i)
       \<and> distinct (map fst (make_embedding_map vs ls))"
  using assms map_of_rev_zip_last [of ls vs i]
  by (simp add: map_of_make_embedding_map distinct_make_embedding_map)

theorem make_embedding_map_last_wins_witness:
  "map_of (make_embedding_map [[1], [2], [3::real]] [''a'', ''b'', ''a'']) ''a'' = Some [3]
   \<and> distinct (map fst (make_embedding_map [[1], [2], [3::real]] [''a'', ''b'', ''a'']))"
proof -
  have "\<forall>j::nat. 2 < j \<and> j < length [''a'', ''b'', ''a''] \<longrightarrow>
          [''a'', ''b'', ''a''] ! j \<noteq> [''a'', ''b'', ''a''] ! 2"
    by simp
  from make_embedding_map_last_wins
    [of "[[1], [2], [3::real]]" "[''a'', ''b'', ''a'']" 2, OF _ _ this]
  show ?thesis by simp
qed






text \<open>
  C9. \<open>len(store)\<close> is the number of attributes of the instance, which is four
  (\<open>embedding_type\<close>, \<open>word_vectors\<close>, \<open>vector_labels\<close>, \<open>dict\<close>) whatever the number of
  labels loaded.
\<close>

theorem len_is_four: "len self = 4 \<and> map fst (instance_dict self)
    = [''embedding_type'', ''word_vectors'', ''vector_labels'', ''dict'']"
  by (simp add: len_def instance_dict_def)

subsection \<open>Cosine similarity\<close>

text \<open>
  C3. When the lookup of \<open>w1\<close> or of \<open>w2\<close> returns \<open>None\<close>, \<open>get_cosine_similarity\<close> raises
  nothing and returns \<open>None\<close>, after printing one line that names the first of the two
  words without a vector.
\<close>

theorem get_cosine_similarity_missing:
  assumes "getitem self w1 = None \<or> getitem self w2 = None"
  shows "get_cosine_similarity A self w1 w2 =
           ([''no vectors for word '' @ (if getitem self w1 = None then w1 else w2)],
            Inr None)"
  using assms by (auto simp: get_cosine_similarity_def split: option.splits)

theorem get_cosine_similarity_missing_witness:
  "getitem demo_store ''Mond'' = None
   \<and> get_cosine_similarity exact demo_store ''Haus'' ''Mond'' =
       ([''no vectors for word Mond''], Inr None)"
  using get_cosine_similarity_missing [of demo_store "''Haus''" "''Mond''" exact]
  by (simp add: demo_store_def getitem_def lower_eval)

text \<open>
  C7. For two words that both have vectors in the store, the similarity of \<open>w1\<close> and
  \<open>w2\<close> is that of \<open>w2\<close> and \<open>w1\<close>, in every arithmetic whose multiplication gives the
  same number for its two factors in either order (as that of \<open>float32\<close> does): what one
  call returns the other returns, so that both return the same number or both raise;
  neither prints. Both return a number when the two vectors have one length, at least
  one entry and finite entries only.
\<close>

theorem get_cosine_similarity_symmetric:
  assumes "\<forall>a b. fmul A a b = fmul A b a"
    and "getitem self w1 = Some v1" and "getitem self w2 = Some v2"
  shows "(\<forall>r. snd (get_cosine_similarity A self w1 w2) = Inr r \<longleftrightarrow>
              snd (get_cosine_similarity A self w2 w1) = Inr r)
       \<and> fst (get_cosine_similarity A self w1 w2) = []
       \<and> fst (get_cosine_similarity A self w2 w1) = []
       \<and> (list_all (isfinite A) v1 \<and> list_all (isfinite A) v2
            \<and> v1 \<noteq> [] \<and> length v1 = length v2 \<longrightarrow>
            (\<exists>x. get_cosine_similarity A self w1 w2 = ([], Inr (Some x))
                \<and> get_cosine_similarity A self w2 w1 = ([], Inr (Some x))))"
proof -
  have sym: "\<forall>r. snd (get_cosine_similarity A self w1 w2) = Inr r \<longleftrightarrow>
                 snd (get_cosine_similarity A self w2 w1) = Inr r"
    using snd_get_cosine_similarity_commute [OF assms(1)] by blast
  have out: "fst (get_cosine_similarity A self w1 w2) = []"
      "fst (get_cosine_similarity A self w2 w1) = []"
    using assms(2,3) by (simp_all add: get_cosine_similarity_def)
  have "\<exists>x. get_cosine_similarity A self w1 w2 = ([], Inr (Some x))
           \<and> get_cosine_similarity A self w2 w1 = ([], Inr (Some x))"
    if "list_all (isfinite A) v1 \<and> list_all (isfinite A) v2
          \<and> v1 \<noteq> [] \<and> length v1 = length v2"
  proof -
    from that obtain x where x: "cosine_similarity A v1 v2 = Inr x"
      using cosine_similarity_returns [of A v1 v2] by auto
    then have "cosine_similarity A v2 v1 = Inr x"
      using cosine_similarity_commute [OF assms(1)] by blast
    with x assms(2,3) show ?thesis by (simp add: get_cosine_similarity_def)
  qed
  with sym out show ?thesis by blast
qed

theorem get_cosine_similarity_symmetric_witness:
  "getitem demo_store ''Haus'' = Some [3, 4] \<and> getitem demo_store ''Hut'' = Some [4, 3]
   \<and> (\<exists>x. get_cosine_similarity exact demo_store ''Haus'' ''Hut'' = ([], Inr (Some x))
         \<and> get_cosine_similarity exact demo_store ''Hut'' ''Haus'' = ([], Inr (Some x)))"
proof -
  have comm: "\<forall>a b. fmul exact a b = fmul exact b a"
    by (simp add: exact_def mult.commute)
  have h1: "getitem demo_store ''Haus'' = Some [3, 4]"
    by (simp add: demo_store_def getitem_def lower_eval)
  have h2: "getitem demo_store ''Hut'' = Some [4, 3]"
    by (simp add: demo_store_def getitem_def lower_eval)
  have fin: "list_all (isfinite exact) [3, 4] \<and> list_all (isfinite exact) [4, 3]
      \<and> [3, 4::real] \<noteq> [] \<and> length [3, 4::real] = length [4, 3::real]"
    by (simp add: exact_def)
  from get_cosine_similarity_symmetric [OF comm h1 h2] fin h1 h2 show ?thesis by blast
qed




subsection \<open>The similarity matrix\<close>




end
